theory Spec2Isabelle
  imports Main "HOL-Library.Sublist"
begin

section \<open>The CSV menu cleaner: scripts/clean-csv-menu-data-all-columns.py\<close>

text \<open>
  The script reads a CSV file, drops the last column of every row and cleans every
  field of the data rows with \<open>clean_field\<close>. This theory embeds \<open>clean_field\<close>,
  \<open>process_csv\<close> and \<open>main\<close> as HOL functions and proves the properties the
  specification states about them.
\<close>

subsection \<open>Python strings\<close>

text \<open>
  A Python \<open>str\<close> is a sequence of Unicode code points. A code point is a natural
  number here, so that the whitespace and digit classes of \<open>str.strip\<close>,
  \<open>str.isspace\<close> and the \<open>re\<close> module are the Unicode ones and not only ASCII.
  \<open>codes\<close> writes an ASCII literal as such a string.
\<close>

type_synonym pychar = nat
type_synonym pystr = "pychar list"

definition codes :: "string \<Rightarrow> pystr" where
  "codes s = map of_char s"

text \<open>
  \<open>str.isspace\<close>, \<open>str.strip()\<close> and the regex class \<open>\s\<close> of a \<open>str\<close> pattern
  all use CPython's one whitespace table (\<open>Py_UNICODE_ISSPACE\<close>): the code points
  below, from TAB (9) to IDEOGRAPHIC SPACE (12288).
\<close>

definition whitespace :: "pychar list" where
  "whitespace = [9, 10, 11, 12, 13, 28, 29, 30, 31, 32, 133, 160, 5760,
     8192, 8193, 8194, 8195, 8196, 8197, 8198, 8199, 8200, 8201, 8202,
     8232, 8233, 8239, 8287, 12288]"

definition is_space :: "pychar \<Rightarrow> bool" where
  "is_space c = (c \<in> set whitespace)"

text \<open>
  The regex class \<open>\d\<close> of a \<open>str\<close> pattern is the Unicode category Nd
  (\<open>str.isdecimal\<close>). Every script's digits are ten consecutive code points;
  \<open>decimal_zeros\<close> lists the code point of each digit zero (Unicode 14, the table of
  Python 3.11), ASCII \<open>0\<close> (48) first.
\<close>

definition decimal_zeros :: "pychar list" where
  "decimal_zeros = [48, 1632, 1776, 1984, 2406, 2534, 2662, 2790, 2918, 3046, 3174,
     3302, 3430, 3558, 3664, 3792, 3872, 4160, 4240, 6112, 6160, 6470, 6608, 6784,
     6800, 6992, 7088, 7232, 7248, 42528, 43216, 43264, 43472, 43504, 43600, 44016,
     65296, 66720, 68912, 69734, 69872, 69942, 70096, 70384, 70736, 70864, 71248,
     71360, 71472, 71904, 72016, 72784, 73040, 73120, 92768, 92864, 93008, 120782,
     120792, 120802, 120812, 120822, 123200, 123632, 125264, 130032]"

definition is_decimal :: "pychar \<Rightarrow> bool" where
  "is_decimal c = list_ex (\<lambda>z. z \<le> c \<and> c \<le> z + 9) decimal_zeros"

text \<open>\<open>s.strip()\<close>: leading and trailing whitespace removed.\<close>

definition strip :: "pystr \<Rightarrow> pystr" where
  "strip s = rev (dropWhile is_space (rev (dropWhile is_space s)))"

text \<open>\<open>s.strip(chars)\<close>: leading and trailing characters of \<open>chars\<close> removed.\<close>

definition strip_chars :: "pystr \<Rightarrow> pystr \<Rightarrow> pystr" where
  "strip_chars chars s =
     rev (dropWhile (\<lambda>c. c \<in> set chars) (rev (dropWhile (\<lambda>c. c \<in> set chars) s)))"

text \<open>\<open>s.isspace()\<close>: at least one character, and every character is whitespace.\<close>

definition isspace :: "pystr \<Rightarrow> bool" where
  "isspace s = (s \<noteq> [] \<and> list_all is_space s)"

text \<open>\<open>sub in s\<close> on strings: \<open>sub\<close> occurs in \<open>s\<close> as a contiguous substring.\<close>

fun contains :: "pystr \<Rightarrow> pystr \<Rightarrow> bool" where
  "contains sub [] = (sub = [])"
| "contains sub (c # cs) = (prefix sub (c # cs) \<or> contains sub cs)"

text \<open>
  \<open>s.replace(old, new)\<close>: the occurrences of \<open>old\<close> are replaced from left to
  right, the search resuming after each replaced occurrence. For an empty \<open>old\<close>
  Python puts \<open>new\<close> before every character and at the end.
\<close>

function replace :: "pystr \<Rightarrow> pystr \<Rightarrow> pystr \<Rightarrow> pystr" where
  "replace old new [] = (if old = [] then new else [])"
| "replace old new (c # cs) =
     (if old = [] then new @ c # replace old new cs
      else if prefix old (c # cs) then new @ replace old new (drop (length old) (c # cs))
      else c # replace old new cs)"
  by pat_completeness auto
termination
  by (relation "measure (\<lambda>(old, new, s). length s)") auto

subsection \<open>The regular expressions of the script\<close>

text \<open>
  Every pattern of the script is a sequence of single-character items, each taken
  once (\<open>x\<close>), any number of times (\<open>x*\<close>) or at least once (\<open>x+\<close>); an item is a
  literal character or one of the classes \<open>\d\<close> and \<open>\s\<close>. A pattern is the list of
  its items, an item the set of characters it accepts (as a predicate) and its
  quantifier.
\<close>

datatype quant = One | Star | Plus

type_synonym item = "(pychar \<Rightarrow> bool) \<times> quant"
type_synonym regex = "item list"

text \<open>
  \<open>match_len pat s\<close> is the length of the match of \<open>pat\<close> at the start of \<open>s\<close>, as
  the backtracking matcher of \<open>re\<close> finds it: \<open>x*\<close> and \<open>x+\<close> are greedy, they take as
  many characters as they can and give one back at a time while the rest of the
  pattern does not match.
\<close>

fun match_len :: "regex \<Rightarrow> pystr \<Rightarrow> nat option" where
  "match_len [] s = Some 0"
| "match_len ((p, One) # pat) [] = None"
| "match_len ((p, One) # pat) (c # cs) =
     (if p c then map_option Suc (match_len pat cs) else None)"
| "match_len ((p, Star) # pat) [] = match_len pat []"
| "match_len ((p, Star) # pat) (c # cs) =
     (if p c then
        (case match_len ((p, Star) # pat) cs of
           Some n \<Rightarrow> Some (Suc n)
         | None \<Rightarrow> match_len pat (c # cs))
      else match_len pat (c # cs))"
| "match_len ((p, Plus) # pat) [] = None"
| "match_len ((p, Plus) # pat) (c # cs) =
     (if p c then map_option Suc (match_len ((p, Star) # pat) cs) else None)"

text \<open>
  \<open>re.sub(pat, repl, s)\<close> with a literal replacement: the string is scanned from
  left to right; where the pattern matches, the match is replaced and the scan
  resumes after it, elsewhere the character is kept. An empty match (none of the
  script's patterns has one) is replaced and the scan moves one character on.
\<close>

fun re_sub :: "regex \<Rightarrow> pystr \<Rightarrow> pystr \<Rightarrow> pystr" where
  "re_sub pat repl [] = (case match_len pat [] of Some n \<Rightarrow> repl | None \<Rightarrow> [])"
| "re_sub pat repl (c # cs) =
     (case match_len pat (c # cs) of
        None \<Rightarrow> c # re_sub pat repl cs
      | Some 0 \<Rightarrow> repl @ c # re_sub pat repl cs
      | Some (Suc n) \<Rightarrow> repl @ re_sub pat repl (drop n cs))"

definition lit :: "char \<Rightarrow> pychar \<Rightarrow> bool" where
  "lit ch c = (c = of_char ch)"

subsection \<open>clean_field\<close>

text \<open>The module constants \<open>UNWANTED_PHRASES\<close> and \<open>REGEX_PATTERNS\<close> (lines 14-26).\<close>

definition UNWANTED_PHRASES :: "pystr list" where
  "UNWANTED_PHRASES =
     [codes ''Plus small'',
      codes ''Thumb up outline'',
      codes ''No. 1 most liked'',
      codes ''No. 2 most liked'',
      codes ''No. 3 most liked'']"

text \<open>\<open>\d+%\<close> and \<open>\(\d+\)\<close>.\<close>

definition REGEX_PATTERNS :: "regex list" where
  "REGEX_PATTERNS =
     [[(is_decimal, Plus), (lit CHR ''%'', One)],
      [(lit CHR ''('', One), (is_decimal, Plus), (lit CHR '')'', One)]]"

text \<open>The patterns of lines 59, 60, 61 and 67: \<open>;\s*;\<close>, \<open>,\s*,\<close>, \<open>\s+\<close> and \<open>\(\s*\)\<close>.\<close>

definition double_semicolon :: regex where
  "double_semicolon = [(lit CHR '';'', One), (is_space, Star), (lit CHR '';'', One)]"

definition double_comma :: regex where
  "double_comma = [(lit CHR '','', One), (is_space, Star), (lit CHR '','', One)]"

definition space_run :: regex where
  "space_run = [(is_space, Plus)]"

definition empty_parens :: regex where
  "empty_parens = [(lit CHR ''('', One), (is_space, Star), (lit CHR '')'', One)]"

text \<open>
  Lines 49-54: every unwanted phrase is removed in turn, then every match of each
  regex pattern.
\<close>

definition remove_phrases :: "pystr \<Rightarrow> pystr" where
  "remove_phrases s = foldl (\<lambda>cleaned phrase. replace phrase [] cleaned) s UNWANTED_PHRASES"

definition remove_patterns :: "pystr \<Rightarrow> pystr" where
  "remove_patterns s = foldl (\<lambda>cleaned pattern. re_sub pattern [] cleaned) s REGEX_PATTERNS"

text \<open>
  Line 57, the test on the original field:
  \<open>';' in field_value or any(phrase in field_value for phrase in UNWANTED_PHRASES)\<close>.
\<close>

definition looks_like_tags :: "pystr \<Rightarrow> bool" where
  "looks_like_tags field_value =
     (contains (codes '';'') field_value
      \<or> list_ex (\<lambda>phrase. contains phrase field_value) UNWANTED_PHRASES)"

text \<open>Lines 59-67, the formatting clean-up of a tags field.\<close>

definition tidy_tags :: "pystr \<Rightarrow> pystr" where
  "tidy_tags s =
     (let cleaned = re_sub double_semicolon (codes '';'') s;
          cleaned = re_sub double_comma (codes '','') cleaned;
          cleaned = re_sub space_run (codes '' '') cleaned;
          cleaned = strip_chars (codes '' ;,'') cleaned
      in strip (re_sub empty_parens [] cleaned))"

text \<open>\<open>clean_field\<close> (lines 28-76), for a \<open>str\<close> argument.\<close>

definition clean_field :: "pystr \<Rightarrow> pystr" where
  "clean_field field_value =
     (if field_value = [] then field_value
      else if strip field_value \<in> set UNWANTED_PHRASES then []
      else
        let cleaned = remove_patterns (remove_phrases field_value);
            cleaned = (if looks_like_tags field_value then tidy_tags cleaned
                       else strip cleaned)
        in if cleaned = [] \<or> isspace cleaned then [] else cleaned)"

subsection \<open>The cleaning of a field as the specification words it\<close>














subsection \<open>process_csv\<close>

text \<open>
  A row is the list of its fields, as \<open>csv.reader\<close> yields it (a blank line of the
  file is the row with no field). What the script prints is kept as a list of
  messages, one constructor for each \<open>print\<close> of the source:
  \<^item> \<open>Input_empty\<close>: line 94, \<open>Error: Input file is empty\<close>;
  \<^item> \<open>Field_changed\<close> and \<open>Field_removed\<close>: lines 120 and 122, with the row number
    \<open>row_num + 1\<close>, the column name (the header's field, or \<open>Column n\<close> past the end
    of the header), the original value and, for a changed field, the cleaned value;
  \<^item> \<open>Rows_processed\<close>, \<open>Fields_cleaned\<close> and \<open>Output_saved\<close>: lines 129-131;
  \<^item> \<open>Usage\<close>: the usage text of lines 135-145;
  \<^item> \<open>Input_not_found\<close>: line 151;
  \<^item> \<open>Processing\<close>, \<open>Output_to\<close> and \<open>Cleaning_all\<close>: lines 161-163;
  \<^item> \<open>Error_processing\<close>: line 168, with the exception's message.
  An exception is kept as its message.
\<close>

type_synonym row = "pystr list"
type_synonym path = pystr
type_synonym exn = pystr

datatype col_name = Header_name pystr | Column_number nat

datatype message =
    Input_empty
  | Field_changed nat col_name pystr pystr
  | Field_removed nat col_name pystr
  | Rows_processed nat
  | Fields_cleaned nat
  | Output_saved path
  | Usage
  | Input_not_found path
  | Processing path
  | Output_to path
  | Cleaning_all
  | Error_processing exn

text \<open>
  The local variables of \<open>process_csv\<close> that its loops update, with the rows given
  to \<open>writer.writerow\<close> so far (\<open>written\<close>) and the lines printed so far
  (\<open>printed\<close>).
\<close>

record frame =
  rows_processed :: nat
  fields_cleaned :: nat
  cleaned_row :: row
  written :: "row list"
  printed :: "message list"

text \<open>
  The body of the inner loop (lines 112-124) for one \<open>col_idx\<close>. The loop runs over
  \<open>range(len(cleaned_row))\<close> and the assignment keeps the length of \<open>cleaned_row\<close>,
  so \<open>col_idx\<close> is always within the row.
\<close>

definition clean_column :: "row \<Rightarrow> nat \<Rightarrow> nat \<Rightarrow> frame \<Rightarrow> frame" where
  "clean_column header row_num col_idx st =
     (let original_value = cleaned_row st ! col_idx;
          cleaned_value = clean_field original_value;
          col_name = (if col_idx < length header then Header_name (header ! col_idx)
                      else Column_number (col_idx + 1));
          st = (if original_value \<noteq> cleaned_value then
                  st\<lparr>fields_cleaned := fields_cleaned st + 1,
                     printed := printed st @
                       (if original_value \<noteq> [] \<and> cleaned_value \<noteq> [] then
                          [Field_changed (row_num + 1) col_name original_value cleaned_value]
                        else if original_value \<noteq> [] \<and> cleaned_value = [] then
                          [Field_removed (row_num + 1) col_name original_value]
                        else [])\<rparr>
                else st)
      in st\<lparr>cleaned_row := (cleaned_row st)[col_idx := cleaned_value]\<rparr>)"

text \<open>
  The body of the outer loop (lines 105-127) for one \<open>(row_num, row)\<close> of
  \<open>enumerate(rows)\<close>. \<open>row[:-1]\<close> is the row without its last field.
\<close>

definition process_row :: "row \<Rightarrow> nat \<times> row \<Rightarrow> frame \<Rightarrow> frame" where
  "process_row header numbered st =
     (let row_num = fst numbered; row = snd numbered in
      if row \<noteq> [] then
        let st = st\<lparr>cleaned_row := (if length row > 0 then butlast row else row)\<rparr>;
            st = (if row_num > 0
                  then fold (clean_column header row_num) [0..<length (cleaned_row st)] st
                  else st)
        in st\<lparr>written := written st @ [cleaned_row st],
              rows_processed := rows_processed st + 1\<rparr>
      else st)"

definition start :: frame where
  "start = \<lparr>rows_processed = 0, fields_cleaned = 0, cleaned_row = [],
            written = [], printed = []\<rparr>"

text \<open>The loop of lines 104-127 over all rows; \<open>header\<close> is \<open>rows[0]\<close>.\<close>

definition process_rows :: "row list \<Rightarrow> frame" where
  "process_rows rows = fold (process_row (hd rows)) (enumerate 0 rows) start"

text \<open>
  The files the script touches. Reading the input (\<open>open\<close>, \<open>csv.reader\<close>,
  \<open>list\<close>) either raises or yields the rows; opening the output for writing either
  raises or creates the file. \<open>path_exists\<close> is \<open>Path.exists\<close>, and
  \<open>no_images_name\<close> is the \<open>pathlib\<close> computation of line 159 that puts
  \<open>_no_images\<close> before the suffix of the input's name.
\<close>

record env =
  path_exists :: "path \<Rightarrow> bool"
  read_rows :: "path \<Rightarrow> exn + row list"
  open_output :: "path \<Rightarrow> exn option"
  no_images_name :: "path \<Rightarrow> path"

text \<open>
  What a call of \<open>process_csv\<close> does: the exception it raises, if any, the lines it
  prints, and the output file it creates with the rows written to it, if any.
\<close>

record run =
  raised :: "exn option"
  stdout :: "message list"
  created :: "(path \<times> row list) option"

text \<open>\<open>process_csv\<close> (lines 78-131).\<close>

definition process_csv :: "env \<Rightarrow> path \<Rightarrow> path \<Rightarrow> run" where
  "process_csv world input_file output_file =
     (case read_rows world input_file of
        Inl e \<Rightarrow> \<lparr>raised = Some e, stdout = [], created = None\<rparr>
      | Inr rows \<Rightarrow>
          if rows = [] then \<lparr>raised = None, stdout = [Input_empty], created = None\<rparr>
          else
            (case open_output world output_file of
               Some e \<Rightarrow> \<lparr>raised = Some e, stdout = [], created = None\<rparr>
             | None \<Rightarrow>
                 let st = process_rows rows in
                 \<lparr>raised = None,
                  stdout = printed st @
                    [Rows_processed (rows_processed st), Fields_cleaned (fields_cleaned st),
                     Output_saved output_file],
                  created = Some (output_file, written st)\<rparr>))"

subsection \<open>main\<close>

text \<open>
  What a run of the script does: the exit status of the process (\<open>sys.exit(1)\<close>
  gives 1, returning from \<open>main\<close> gives 0), the lines printed and the output file.
\<close>

record outcome =
  exit_status :: nat
  console :: "message list"
  file_made :: "(path \<times> row list) option"

text \<open>\<open>main\<close> (lines 133-169); \<open>argv\<close> is \<open>sys.argv\<close>, the script's name first.\<close>

definition main :: "env \<Rightarrow> pystr list \<Rightarrow> outcome" where
  "main world argv =
     (if length argv < 2 then \<lparr>exit_status = 1, console = [Usage], file_made = None\<rparr>
      else
        let input_file = argv ! 1 in
        if \<not> path_exists world input_file then
          \<lparr>exit_status = 1, console = [Input_not_found input_file], file_made = None\<rparr>
        else
          let output_file = (if length argv \<ge> 3 then argv ! 2
                             else no_images_name world input_file);
              banner = [Processing input_file, Output_to output_file, Cleaning_all];
              r = process_csv world input_file output_file
          in (case raised r of
                Some e \<Rightarrow>
                  \<lparr>exit_status = 1, console = banner @ stdout r @ [Error_processing e],
                   file_made = created r\<rparr>
              | None \<Rightarrow>
                  \<lparr>exit_status = 0, console = banner @ stdout r, file_made = created r\<rparr>))"

subsection \<open>Example inputs\<close>

text \<open>
  A directory whose only file is \<open>menu.csv\<close>, holding the given rows, and in which
  every output file can be created.
\<close>

definition menu_csv :: "row list \<Rightarrow> env" where
  "menu_csv rows =
     \<lparr>path_exists = (\<lambda>p. p = codes ''menu.csv''),
      read_rows = (\<lambda>p. if p = codes ''menu.csv'' then Inr rows
                         else Inl (codes ''No such file or directory'')),
      open_output = (\<lambda>p. None),
      no_images_name = (\<lambda>p. codes ''menu_no_images.csv'')\<rparr>"

text \<open>The command line \<open>clean-csv-menu-data-all-columns.py menu.csv\<close>.\<close>

definition menu_argv :: "pystr list" where
  "menu_argv = [codes ''clean-csv-menu-data-all-columns.py'', codes ''menu.csv'']"

text \<open>A written row has one field fewer than the row it comes from.\<close>

definition one_fewer :: "row \<Rightarrow> row \<Rightarrow> bool" where
  "one_fewer r w = (length w + 1 = length r)"

text \<open>
  Rows of three input files: one with a blank second line, one with a blank first
  line, and one whose header and data row both start with an unwanted phrase.
\<close>

definition blank_line_rows :: "row list" where
  "blank_line_rows = [[codes ''name'', codes ''imageURL''], []]"

definition blank_first_rows :: "row list" where
  "blank_first_rows = [[], [codes '' x '', codes ''y'']]"

definition phrase_header_rows :: "row list" where
  "phrase_header_rows = [[codes ''Plus small'', codes ''imageURL''], [codes ''Plus small'', codes ''u'']]"

text \<open>
  \<open>without_last (row_num, row) w\<close>: the written row \<open>w\<close> is the input row \<open>row\<close>,
  numbered \<open>row_num\<close>, without its last field: it has one field fewer, and its
  fields are those of \<open>row\<close> but the last, in the same order, as they are for the
  header row (number 0) and cleaned for a data row.
\<close>

fun without_last :: "nat \<times> row \<Rightarrow> row \<Rightarrow> bool" where
  "without_last (row_num, row) w =
     (length w + 1 = length row
      \<and> w = (if 0 < row_num then map clean_field (butlast row) else butlast row))"

text \<open>A menu with a header, a blank line and one data row.\<close>

definition menu_rows :: "row list" where
  "menu_rows =
     [[codes ''name'', codes ''tags'', codes ''imageURL''],
      [],
      [codes ''Pizza'', codes ''hot;;spicy'', codes ''http://x/p.png'']]"

section \<open>Properties\<close>

subsection \<open>Evaluation and the string operations\<close>

lemma codes_simps: "codes [] = []" "codes (c # s) = of_char c # codes s"
  by (simp_all add: codes_def)

lemmas eval_defs = codes_simps lit_def is_space_def whitespace_def is_decimal_def
  decimal_zeros_def strip_def strip_chars_def isspace_def UNWANTED_PHRASES_def
  REGEX_PATTERNS_def double_semicolon_def double_comma_def space_run_def empty_parens_def
  remove_phrases_def remove_patterns_def looks_like_tags_def tidy_tags_def clean_field_def

lemma strip_hd: "strip s \<noteq> [] \<Longrightarrow> \<not> is_space (hd (strip s))"
proof -
  assume ne: "strip s \<noteq> []"
  define g where "g = dropWhile is_space s"
  define h where "h = dropWhile is_space (rev g)"
  have st: "strip s = rev h" by (simp add: strip_def g_def h_def)
  with ne have h: "h \<noteq> []" by simp
  then have g: "g \<noteq> []" by (auto simp: h_def)
  have "\<not> is_space (hd g)" unfolding g_def using g [unfolded g_def] by (rule hd_dropWhile)
  moreover have "rev g = takeWhile is_space (rev g) @ h" by (simp add: h_def)
  then have "g = rev h @ rev (takeWhile is_space (rev g))"
    by (metis rev_append rev_rev_ident)
  ultimately show ?thesis using h st by (metis hd_append2 rev_is_Nil_conv)
qed

lemma strip_last: "strip s \<noteq> [] \<Longrightarrow> \<not> is_space (last (strip s))"
proof -
  assume ne: "strip s \<noteq> []"
  let ?h = "dropWhile is_space (rev (dropWhile is_space s))"
  have h: "?h \<noteq> []" using ne by (simp add: strip_def)
  have "\<not> is_space (hd ?h)" using h by (rule hd_dropWhile)
  then show ?thesis using h by (simp add: strip_def last_rev)
qed

lemma strip_not_isspace: "\<not> isspace (strip s)"
proof
  assume a: "isspace (strip s)"
  then have ne: "strip s \<noteq> []" by (simp add: isspace_def)
  then have "hd (strip s) \<in> set (strip s)" by simp
  with a have "is_space (hd (strip s))" by (simp add: isspace_def list_all_iff)
  with strip_hd [OF ne] show False by simp
qed

lemma tidy_tags_strip: "\<exists>x. tidy_tags s = strip x"
  by (auto simp: tidy_tags_def Let_def)

lemma clean_field_shape: "clean_field f = [] \<or> (\<exists>x. clean_field f = strip x)"
  using tidy_tags_strip [of "remove_patterns (remove_phrases f)"]
  by (auto simp: clean_field_def Let_def)

subsection \<open>clean_field on the examples of the specification\<close>

text \<open>
  C6: \<open>clean_field\<close> of \<open>93% (30) great\<close> is \<open>great\<close>. The field has no semicolon and
  no unwanted phrase, so it is not treated as a tags field: the two regex patterns
  remove \<open>93%\<close> and \<open>(30)\<close>, which leaves two spaces before \<open>great\<close>, and the
  result is only stripped of its surrounding whitespace.
\<close>

theorem clean_field_percentage_and_count:
  "clean_field (codes ''93% (30) great'') = codes ''great''
   \<and> \<not> looks_like_tags (codes ''93% (30) great'')
   \<and> remove_patterns (remove_phrases (codes ''93% (30) great'')) = codes ''  great''
   \<and> strip (codes ''  great'') = codes ''great''"
  by (simp add: eval_defs)

text \<open>
  C7: \<open>clean_field\<close> of \<open>a;;b\<close> is \<open>a;b\<close>. The field has a semicolon, so it is
  treated as a tags field, and the substitution of \<open>;\s*;\<close> by one semicolon
  replaces the two adjacent semicolons.
\<close>

theorem clean_field_double_semicolon:
  "clean_field (codes ''a;;b'') = codes ''a;b''
   \<and> looks_like_tags (codes ''a;;b'')
   \<and> re_sub double_semicolon (codes '';'') (codes ''a;;b'') = codes ''a;b''"
  by (simp add: eval_defs)

subsection \<open>clean_field on every field\<close>

text \<open>
  C5: a field that, stripped of its surrounding whitespace, is exactly one of the
  five unwanted phrases is cleaned to the empty string.
\<close>

theorem clean_field_exact_phrase:
  "strip f \<in> set UNWANTED_PHRASES \<Longrightarrow> clean_field f = []"
  by (simp add: clean_field_def)

theorem clean_field_exact_phrase_witness:
  "strip (codes '' Plus small '') \<in> set UNWANTED_PHRASES
   \<and> clean_field (codes '' Plus small '') = []"
proof -
  have h: "strip (codes '' Plus small '') \<in> set UNWANTED_PHRASES"
    by (simp add: eval_defs)
  from h clean_field_exact_phrase [OF h] show ?thesis by simp
qed

text \<open>
  C10: the string \<open>clean_field\<close> returns neither starts nor ends with a whitespace
  character, and it is never a non-empty string of whitespace only.
\<close>

theorem clean_field_no_outer_whitespace:
  "(clean_field f \<noteq> [] \<longrightarrow>
      \<not> is_space (hd (clean_field f)) \<and> \<not> is_space (last (clean_field f)))
   \<and> \<not> isspace (clean_field f)"
proof -
  from clean_field_shape [of f] show ?thesis
  proof
    assume "clean_field f = []"
    then show ?thesis by (simp add: isspace_def)
  next
    assume "\<exists>x. clean_field f = strip x"
    then obtain x where "clean_field f = strip x" ..
    then show ?thesis
      using strip_hd [of x] strip_last [of x] strip_not_isspace [of x] by simp
  qed
qed

theorem clean_field_no_outer_whitespace_witness:
  "clean_field (codes '' 93% (30) great '') = codes ''great''
   \<and> \<not> is_space (hd (codes ''great'')) \<and> \<not> is_space (last (codes ''great''))
   \<and> \<not> isspace (codes ''great'')"
proof -
  have v: "clean_field (codes '' 93% (30) great '') = codes ''great''"
    by (simp add: eval_defs)
  have ne: "codes ''great'' \<noteq> []" by (simp add: codes_simps)
  from clean_field_no_outer_whitespace [of "codes '' 93% (30) great ''"] v ne
  show ?thesis by simp
qed

subsection \<open>The two branches of clean_field\<close>


















subsection \<open>clean_field does what the specification says\<close>
























subsection \<open>The loops of process_csv\<close>

text \<open>
  The inner loop replaces every field of \<open>cleaned_row\<close> by its \<open>clean_field\<close> and
  touches neither the rows written nor their count; the outer loop writes one row
  for every row that has a field, and nothing for a row that has none.
\<close>

lemma clean_column_fields:
  "rows_processed (clean_column header n i st) = rows_processed st"
  "written (clean_column header n i st) = written st"
  "cleaned_row (clean_column header n i st) = (cleaned_row st)[i := clean_field (cleaned_row st ! i)]"
  by (simp_all add: clean_column_def Let_def)

lemma clean_columns_upto:
  "k \<le> length (cleaned_row st) \<Longrightarrow>
   cleaned_row (fold (clean_column header n) [0..<k] st)
     = map clean_field (take k (cleaned_row st)) @ drop k (cleaned_row st)
   \<and> rows_processed (fold (clean_column header n) [0..<k] st) = rows_processed st
   \<and> written (fold (clean_column header n) [0..<k] st) = written st"
proof (induction k)
  case 0
  then show ?case by simp
next
  case (Suc k)
  let ?st = "fold (clean_column header n) [0..<k] st"
  from Suc have ih: "cleaned_row ?st = map clean_field (take k (cleaned_row st)) @ drop k (cleaned_row st)"
    and rp: "rows_processed ?st = rows_processed st" and wr: "written ?st = written st" by simp_all
  from Suc.prems have k: "k < length (cleaned_row st)" by simp
  have "cleaned_row (clean_column header n k ?st)
        = map clean_field (take (Suc k) (cleaned_row st)) @ drop (Suc k) (cleaned_row st)"
    using k by (simp add: clean_column_fields ih take_Suc_conv_app_nth list_update_append nth_append
       upd_conv_take_nth_drop Cons_nth_drop_Suc [symmetric])
  then show ?case by (simp add: clean_column_fields rp wr)
qed

lemma clean_columns_all:
  "cleaned_row (fold (clean_column header n) [0..<length (cleaned_row st)] st)
     = map clean_field (cleaned_row st)"
  "rows_processed (fold (clean_column header n) [0..<length (cleaned_row st)] st) = rows_processed st"
  "written (fold (clean_column header n) [0..<length (cleaned_row st)] st) = written st"
  using clean_columns_upto [of "length (cleaned_row st)" st header n] by simp_all

lemma process_row_empty: "process_row header (n, []) st = st"
  by (simp add: process_row_def)

lemma process_row_nonempty:
  assumes "row \<noteq> []"
  shows "written (process_row header (n, row) st)
           = written st @ [if n > 0 then map clean_field (butlast row) else butlast row]"
    and "rows_processed (process_row header (n, row) st) = rows_processed st + 1"
proof -
  define st1 where "st1 = st\<lparr>cleaned_row := butlast row\<rparr>"
  have c: "cleaned_row st1 = butlast row" and w: "written st1 = written st"
    and r: "rows_processed st1 = rows_processed st" by (simp_all add: st1_def)
  note all = clean_columns_all [of header n st1, unfolded c w r]
  show "written (process_row header (n, row) st)
           = written st @ [if n > 0 then map clean_field (butlast row) else butlast row]"
    using assms by (simp add: process_row_def Let_def st1_def [symmetric] c w all del: length_butlast)
  show "rows_processed (process_row header (n, row) st) = rows_processed st + 1"
    using assms by (simp add: process_row_def Let_def st1_def [symmetric] c r all del: length_butlast)
qed

lemma process_rows_from:
  "written (fold (process_row header) (enumerate n rows) st)
     = written st @ map (\<lambda>(i, r). if i > 0 then map clean_field (butlast r) else butlast r)
                       (filter (\<lambda>(i, r). r \<noteq> []) (enumerate n rows))
   \<and> rows_processed (fold (process_row header) (enumerate n rows) st)
     = rows_processed st + length (filter (\<lambda>r. r \<noteq> []) rows)"
proof (induction rows arbitrary: n st)
  case Nil
  then show ?case by simp
next
  case (Cons r rows)
  show ?case
  proof (cases "r = []")
    case True
    then show ?thesis using Cons [of "Suc n" st] by (simp add: process_row_empty)
  next
    case False
    then show ?thesis using Cons [of "Suc n" "process_row header (n, r) st"]
      by (simp add: process_row_nonempty)
  qed
qed

lemma process_csv_ok:
  assumes "read_rows world input_file = Inr rows" "rows \<noteq> []"
    "open_output world output_file = None"
  shows "process_csv world input_file output_file =
     \<lparr>raised = None,
      stdout = printed (process_rows rows) @
        [Rows_processed (rows_processed (process_rows rows)),
         Fields_cleaned (fields_cleaned (process_rows rows)), Output_saved output_file],
      created = Some (output_file, written (process_rows rows))\<rparr>"
  using assms by (simp add: process_csv_def Let_def)

lemma process_rows_result:
  "written (process_rows rows)
     = map (\<lambda>(i, r). if i > 0 then map clean_field (butlast r) else butlast r)
           (filter (\<lambda>(i, r). r \<noteq> []) (enumerate 0 rows))"
  "rows_processed (process_rows rows) = length (filter (\<lambda>r. r \<noteq> []) rows)"
  using process_rows_from [of "hd rows" 0 rows start]
  by (simp_all add: process_rows_def start_def)

lemma written_one_fewer:
  "list_all2 one_fewer (filter (\<lambda>r. r \<noteq> []) rows)
     (map (\<lambda>(i, r). if i > 0 then map clean_field (butlast r) else butlast r)
          (filter (\<lambda>(i, r). r \<noteq> []) (enumerate n rows)))"
  by (induction rows arbitrary: n) (auto simp: one_fewer_def)

lemma written_without_last:
  "list_all2 without_last (filter (\<lambda>(i, r). r \<noteq> []) (enumerate n rows))
     (map (\<lambda>(i, r). if i > 0 then map clean_field (butlast r) else butlast r)
          (filter (\<lambda>(i, r). r \<noteq> []) (enumerate n rows)))"
  by (induction rows arbitrary: n) auto

lemmas run_defs = menu_csv_def process_csv_def process_rows_def process_row_def
  clean_column_def start_def Let_def

lemma clean_field_values:
  "clean_field (codes '' x '') = codes ''x''"
  "clean_field (codes ''Plus small'') = []"
  by (simp_all add: eval_defs)

lemma menu_field_values:
  "clean_field (codes ''Pizza'') = codes ''Pizza''"
  "clean_field (codes ''hot;;spicy'') = codes ''hot;spicy''"
  by (simp_all add: eval_defs)

lemma menu_written:
  "written (process_rows menu_rows)
     = [[codes ''name'', codes ''tags''], [codes ''Pizza'', codes ''hot;spicy'']]"
  by (simp add: menu_rows_def run_defs menu_field_values)

lemma blank_line_written:
  "written (process_rows blank_line_rows) = [[codes ''name'']]"
  by (simp add: blank_line_rows_def run_defs)

lemma blank_first_written:
  "written (process_rows blank_first_rows) = [[codes ''x'']]"
  by (simp add: blank_first_rows_def run_defs clean_field_values)

lemma phrase_header_written:
  "written (process_rows phrase_header_rows) = [[codes ''Plus small''], [[]]]"
  by (simp add: phrase_header_rows_def run_defs clean_field_values)

subsection \<open>process_csv on an empty input\<close>

text \<open>
  C3: when the input file holds no row, \<open>process_csv\<close> prints the one line
  \<open>Error: Input file is empty\<close> and returns before the output file is opened: no
  output file is created or written. It returns without raising.
\<close>

theorem empty_input_makes_no_file:
  "read_rows world input_file = Inr [] \<Longrightarrow>
   stdout (process_csv world input_file output_file) = [Input_empty]
   \<and> created (process_csv world input_file output_file) = None
   \<and> raised (process_csv world input_file output_file) = None"
  by (simp add: process_csv_def)

theorem empty_input_makes_no_file_witness:
  "read_rows (menu_csv []) (codes ''menu.csv'') = Inr []
   \<and> stdout (process_csv (menu_csv []) (codes ''menu.csv'') (codes ''out.csv'')) = [Input_empty]
   \<and> created (process_csv (menu_csv []) (codes ''menu.csv'') (codes ''out.csv'')) = None"
proof -
  have h: "read_rows (menu_csv []) (codes ''menu.csv'') = Inr []"
    by (simp add: menu_csv_def)
  from h empty_input_makes_no_file [OF h, of "codes ''out.csv''"] show ?thesis by simp
qed

subsection \<open>One field fewer in every written row\<close>

text \<open>
  C2, as stated, fails on a row with no field (a blank line of the file): no row is
  written for it, so the written rows do not correspond one to one to the rows of
  the input. Here the input has two rows, the second one blank, and one row is
  written.
\<close>

theorem blank_line_has_no_written_row:
  "created (process_csv (menu_csv blank_line_rows) (codes ''menu.csv'') (codes ''out.csv''))
     = Some (codes ''out.csv'', [[codes ''name'']])
   \<and> \<not> list_all2 one_fewer blank_line_rows [[codes ''name'']]"
proof -
  have "read_rows (menu_csv blank_line_rows) (codes ''menu.csv'') = Inr blank_line_rows"
    and "blank_line_rows \<noteq> []"
    and "open_output (menu_csv blank_line_rows) (codes ''out.csv'') = None"
    by (simp_all add: menu_csv_def blank_line_rows_def)
  then have "created (process_csv (menu_csv blank_line_rows) (codes ''menu.csv'') (codes ''out.csv''))
     = Some (codes ''out.csv'', written (process_rows blank_line_rows))"
    by (simp add: process_csv_ok)
  moreover have "\<not> list_all2 one_fewer blank_line_rows [[codes ''name'']]"
    by (simp add: blank_line_rows_def)
  ultimately show ?thesis by (simp add: blank_line_written)
qed

text \<open>
  C2, amended: the rows written to the output file correspond, in order, to the
  rows of the input that have at least one field. Each written row is the row it
  comes from without its last field (the remaining fields in their order, as they
  are for the header row and cleaned for a data row), so it has exactly one field
  fewer than that row. No row is written for a row with no field.
\<close>

theorem nonempty_rows_lose_last_field:
  assumes "read_rows world input_file = Inr rows" and "rows \<noteq> []"
    and "open_output world output_file = None"
  shows "\<exists>ws. created (process_csv world input_file output_file) = Some (output_file, ws)
          \<and> list_all2 without_last (filter (\<lambda>(i, r). r \<noteq> []) (enumerate 0 rows)) ws
          \<and> list_all2 one_fewer (filter (\<lambda>r. r \<noteq> []) rows) ws"
  using assms written_one_fewer [of rows 0] written_without_last [of 0 rows]
  by (simp add: process_csv_ok process_rows_result)

theorem nonempty_rows_lose_last_field_witness:
  "created (process_csv (menu_csv menu_rows) (codes ''menu.csv'') (codes ''out.csv''))
     = Some (codes ''out.csv'',
         [[codes ''name'', codes ''tags''], [codes ''Pizza'', codes ''hot;spicy'']])
   \<and> list_all2 without_last (filter (\<lambda>(i, r). r \<noteq> []) (enumerate 0 menu_rows))
         [[codes ''name'', codes ''tags''], [codes ''Pizza'', codes ''hot;spicy'']]
   \<and> list_all2 one_fewer (filter (\<lambda>r. r \<noteq> []) menu_rows)
         [[codes ''name'', codes ''tags''], [codes ''Pizza'', codes ''hot;spicy'']]"
proof -
  have h: "read_rows (menu_csv menu_rows) (codes ''menu.csv'') = Inr menu_rows"
    "menu_rows \<noteq> []"
    "open_output (menu_csv menu_rows) (codes ''out.csv'') = None"
    by (simp_all add: menu_csv_def menu_rows_def)
  from nonempty_rows_lose_last_field [OF h] obtain ws
    where c: "created (process_csv (menu_csv menu_rows) (codes ''menu.csv'') (codes ''out.csv''))
              = Some (codes ''out.csv'', ws)"
      and l: "list_all2 without_last (filter (\<lambda>(i, r). r \<noteq> []) (enumerate 0 menu_rows)) ws"
        "list_all2 one_fewer (filter (\<lambda>r. r \<noteq> []) menu_rows) ws" by blast
  have "created (process_csv (menu_csv menu_rows) (codes ''menu.csv'') (codes ''out.csv''))
     = Some (codes ''out.csv'', written (process_rows menu_rows))"
    using h by (simp add: process_csv_ok)
  with c have "ws = [[codes ''name'', codes ''tags''], [codes ''Pizza'', codes ''hot;spicy'']]"
    by (simp add: menu_written)
  with c l show ?thesis by simp
qed

subsection \<open>The header row\<close>

text \<open>
  C8, as stated, fails when the first row of the input has no field (the file starts
  with a blank line): that row is not written, and the first row of the output is
  the first data row, without its last field and with its fields cleaned.
\<close>

theorem blank_first_line_is_not_a_header:
  "created (process_csv (menu_csv blank_first_rows) (codes ''menu.csv'') (codes ''out.csv''))
     = Some (codes ''out.csv'', [[codes ''x'']])
   \<and> hd [[codes ''x'']] \<noteq> butlast (hd blank_first_rows)
   \<and> hd [[codes ''x'']] = map clean_field (butlast (blank_first_rows ! 1))"
proof -
  have "read_rows (menu_csv blank_first_rows) (codes ''menu.csv'') = Inr blank_first_rows"
    and "blank_first_rows \<noteq> []"
    and "open_output (menu_csv blank_first_rows) (codes ''out.csv'') = None"
    by (simp_all add: menu_csv_def blank_first_rows_def)
  then have "created (process_csv (menu_csv blank_first_rows) (codes ''menu.csv'') (codes ''out.csv''))
     = Some (codes ''out.csv'', written (process_rows blank_first_rows))"
    by (simp add: process_csv_ok)
  moreover have "hd [[codes ''x'']] \<noteq> butlast (hd blank_first_rows)"
    by (simp add: blank_first_rows_def)
  moreover have "hd [[codes ''x'']] = map clean_field (butlast (blank_first_rows ! 1))"
    by (simp add: blank_first_rows_def clean_field_values)
  ultimately show ?thesis by (simp add: blank_first_written)
qed

text \<open>
  C8, amended: when the first row of the input has at least one field, the first
  row written is that row without its last field, every remaining field exactly as
  it is in the input (no field of it goes through \<open>clean_field\<close>). In the witness
  the header field \<open>Plus small\<close> is kept, where the same field of the data row is
  cleaned to the empty string.
\<close>

theorem header_row_only_loses_last_field:
  assumes "read_rows world input_file = Inr rows" and "rows \<noteq> []" and "hd rows \<noteq> []"
    and "open_output world output_file = None"
  shows "\<exists>ws. created (process_csv world input_file output_file) = Some (output_file, ws)
          \<and> ws \<noteq> [] \<and> hd ws = butlast (hd rows)"
proof -
  from assms(2,3) obtain r rs where rows: "rows = r # rs" and r: "r \<noteq> []"
    by (cases rows) auto
  have "written (process_rows rows) \<noteq> [] \<and> hd (written (process_rows rows)) = butlast (hd rows)"
    using r by (simp add: process_rows_result rows)
  with assms show ?thesis by (simp add: process_csv_ok)
qed

theorem header_row_only_loses_last_field_witness:
  "created (process_csv (menu_csv phrase_header_rows) (codes ''menu.csv'') (codes ''out.csv''))
     = Some (codes ''out.csv'', [[codes ''Plus small''], [[]]])
   \<and> hd [[codes ''Plus small''], [[]]] = butlast (hd phrase_header_rows)
   \<and> clean_field (codes ''Plus small'') \<noteq> codes ''Plus small''"
proof -
  have h: "read_rows (menu_csv phrase_header_rows) (codes ''menu.csv'') = Inr phrase_header_rows"
    "phrase_header_rows \<noteq> []" "hd phrase_header_rows \<noteq> []"
    "open_output (menu_csv phrase_header_rows) (codes ''out.csv'') = None"
    by (simp_all add: menu_csv_def phrase_header_rows_def)
  from header_row_only_loses_last_field [OF h] obtain ws
    where c: "created (process_csv (menu_csv phrase_header_rows) (codes ''menu.csv'') (codes ''out.csv''))
              = Some (codes ''out.csv'', ws)"
      and l: "hd ws = butlast (hd phrase_header_rows)" by blast
  have "created (process_csv (menu_csv phrase_header_rows) (codes ''menu.csv'') (codes ''out.csv''))
     = Some (codes ''out.csv'', written (process_rows phrase_header_rows))"
    using h by (simp add: process_csv_ok)
  with c have "ws = [[codes ''Plus small''], [[]]]" by (simp add: phrase_header_written)
  moreover have "clean_field (codes ''Plus small'') \<noteq> codes ''Plus small''"
    unfolding clean_field_values by (simp add: codes_simps)
  ultimately show ?thesis using c l by simp
qed

subsection \<open>Rows with no field\<close>

text \<open>
  C9: a row with no field leaves the state of the loop as it is: nothing is written
  for it and it is not counted. So the rows written are those of the rows that have
  a field (the header without its last field, a data row without its last field and
  cleaned), and the count printed as processed is the number of rows that have a
  field.
\<close>

theorem empty_rows_are_skipped:
  assumes "read_rows world input_file = Inr rows" and "rows \<noteq> []"
    and "open_output world output_file = None"
  shows "process_row header (n, []) st = st
    \<and> created (process_csv world input_file output_file)
        = Some (output_file,
            map (\<lambda>(i, r). if i > 0 then map clean_field (butlast r) else butlast r)
                (filter (\<lambda>(i, r). r \<noteq> []) (enumerate 0 rows)))
    \<and> (\<exists>msgs k. stdout (process_csv world input_file output_file)
          = msgs @ [Rows_processed (length (filter (\<lambda>r. r \<noteq> []) rows)),
                    Fields_cleaned k, Output_saved output_file])"
  using assms by (simp add: process_csv_ok process_rows_result process_row_empty)

theorem empty_rows_are_skipped_witness:
  "process_row [] (1, []) start = start
   \<and> created (process_csv (menu_csv blank_line_rows) (codes ''menu.csv'') (codes ''out.csv''))
        = Some (codes ''out.csv'', [[codes ''name'']])
   \<and> (\<exists>msgs k. stdout (process_csv (menu_csv blank_line_rows) (codes ''menu.csv'') (codes ''out.csv''))
          = msgs @ [Rows_processed 1, Fields_cleaned k, Output_saved (codes ''out.csv'')])"
proof -
  have h: "read_rows (menu_csv blank_line_rows) (codes ''menu.csv'') = Inr blank_line_rows"
    "blank_line_rows \<noteq> []"
    "open_output (menu_csv blank_line_rows) (codes ''out.csv'') = None"
    by (simp_all add: menu_csv_def blank_line_rows_def)
  have 1: "map (\<lambda>(i, r). if i > 0 then map clean_field (butlast r) else butlast r)
                (filter (\<lambda>(i, r). r \<noteq> []) (enumerate 0 blank_line_rows)) = [[codes ''name'']]"
    by (simp add: blank_line_rows_def)
  have 2: "length (filter (\<lambda>r. r \<noteq> []) blank_line_rows) = 1"
    by (simp add: blank_line_rows_def)
  from empty_rows_are_skipped [OF h, of "[]" 1 start] show ?thesis
    unfolding 1 2 by simp
qed
subsection \<open>The exit status of main\<close>

text \<open>
  The exit status is 1 for a command line with no input argument, for an input file
  that does not exist and for an exception raised while processing, and 0 when the
  file is processed.
\<close>

lemma main_usage_error:
  "length argv < 2 \<Longrightarrow> exit_status (main world argv) = 1"
  by (simp add: main_def)

lemma main_missing_input:
  "2 \<le> length argv \<Longrightarrow> \<not> path_exists world (argv ! 1) \<Longrightarrow>
   exit_status (main world argv) = 1"
  by (simp add: main_def)

lemma main_exit_status:
  "2 \<le> length argv \<Longrightarrow> path_exists world (argv ! 1) \<Longrightarrow>
   exit_status (main world argv) =
     (case raised (process_csv world (argv ! 1)
             (if length argv \<ge> 3 then argv ! 2 else no_images_name world (argv ! 1))) of
        Some e \<Rightarrow> 1 | None \<Rightarrow> 0)"
  by (simp add: main_def Let_def split: option.splits)

lemma process_csv_raised:
  "raised (process_csv world input_file output_file) =
     (case read_rows world input_file of
        Inl e \<Rightarrow> Some e
      | Inr rows \<Rightarrow> if rows = [] then None else open_output world output_file)"
  by (simp add: process_csv_def Let_def split: sum.splits option.splits)

lemma main_processing_exception:
  assumes "2 \<le> length argv" and "path_exists world (argv ! 1)"
    and "raised (process_csv world (argv ! 1)
           (if length argv \<ge> 3 then argv ! 2 else no_images_name world (argv ! 1))) = Some e"
  shows "exit_status (main world argv) = 1"
  using assms by (simp add: main_exit_status)

lemma main_success:
  assumes "2 \<le> length argv" and "path_exists world (argv ! 1)"
    and "read_rows world (argv ! 1) = Inr rows" and "rows \<noteq> []"
    and "open_output world
           (if length argv \<ge> 3 then argv ! 2 else no_images_name world (argv ! 1)) = None"
  shows "exit_status (main world argv) = 0"
  using assms by (simp add: main_exit_status process_csv_raised)

text \<open>
  C1: the claim says that the exit status is 1 when the input file is empty. On an
  existing input file with no row, \<open>process_csv\<close> prints its error line and returns
  normally, so \<open>main\<close> returns and the exit status is 0.
\<close>

theorem main_empty_input_exits_0:
  "exit_status (main (menu_csv []) menu_argv) = 0
   \<and> console (main (menu_csv []) menu_argv) =
       [Processing (codes ''menu.csv''), Output_to (codes ''menu_no_images.csv''),
        Cleaning_all, Input_empty]
   \<and> file_made (main (menu_csv []) menu_argv) = None"
  by (simp add: main_def menu_csv_def menu_argv_def process_csv_def Let_def)

end
